theory Spec2Isabelle
  imports Main
begin

section \<open>JavaScript string primitives used by the server\<close>

text \<open>
  Strings are lists of code units. The header buffer is filled from a scriptable input
  stream, whose \<open>read\<close> yields one code unit per byte, so \<^typ>\<open>char\<close> covers every value
  that can occur there. The body is passed through a UTF-8 converter before it is
  dispatched; the converter is a parameter of the model (\<open>utf8_convert\<close>), and code units
  above 255, which it can produce, are not represented.
\<close>

abbreviation CR :: char where "CR \<equiv> CHR 0x0D"
abbreviation LF :: char where "LF \<equiv> CHR 0x0A"
abbreviation SP :: char where "SP \<equiv> CHR 0x20"

text \<open>\<open>s.startsWith(p)\<close>, the test underlying \<open>indexOf\<close> and \<open>split\<close>.\<close>

fun startsWith :: "string \<Rightarrow> string \<Rightarrow> bool" where
  "startsWith s [] = True"
| "startsWith [] (p # ps) = False"
| "startsWith (c # cs) (p # ps) = (c = p \<and> startsWith cs ps)"

text \<open>\<open>s.indexOf(p)\<close>: the least index where \<open>p\<close> occurs, \<open>None\<close> for \<open>-1\<close>.\<close>

fun indexOf :: "string \<Rightarrow> string \<Rightarrow> nat option" where
  "indexOf [] p = (if p = [] then Some 0 else None)"
| "indexOf (c # cs) p =
     (if startsWith (c # cs) p then Some 0 else map_option Suc (indexOf cs p))"

text \<open>
  \<open>s.split(sep)\<close> for a string separator. The second argument accumulates the current
  piece in reverse. An empty separator splits into single code units.
\<close>

function split_acc :: "string \<Rightarrow> string \<Rightarrow> string \<Rightarrow> string list" where
  "split_acc sep acc [] = [rev acc]"
| "split_acc [] acc (c # cs) = [c] # (if cs = [] then [] else split_acc [] acc cs)"
| "split_acc (p # ps) acc (c # cs) =
     (if startsWith (c # cs) (p # ps)
      then rev acc # split_acc (p # ps) [] (drop (length ps) cs)
      else split_acc (p # ps) (c # acc) cs)"
  by pat_completeness auto
termination
  by (relation "measure (\<lambda>(sep, acc, s). length s)") auto

definition split :: "string \<Rightarrow> string \<Rightarrow> string list" where
  "split s sep = (if s = [] \<and> sep = [] then [] else split_acc sep [] s)"

text \<open>
  White space as \<open>String.prototype.trim\<close> and the regular-expression class \<open>\s\<close> see it,
  among the code units below 256: TAB, LF, VT, FF, CR, space and the no-break space.
\<close>

definition is_space :: "char \<Rightarrow> bool" where
  "is_space c = (c \<in> set [CHR 0x09, LF, CHR 0x0B, CHR 0x0C, CR, SP, CHR 0xA0])"

definition trim :: "string \<Rightarrow> string" where
  "trim s = rev (dropWhile is_space (rev (dropWhile is_space s)))"

section \<open>Query strings\<close>

text \<open>
  \<open>Zotero.Server.decodeQueryString\<close>. \<open>decodeURIComponent\<close> is a built-in of the language,
  not code of the server: it is a parameter \<open>dec\<close>, \<open>None\<close> standing for the
  \<open>URIError\<close> it throws on a malformed escape sequence.

  \<open>variable.substr(0, splitIndex)\<close> with \<open>splitIndex = -1\<close> has a negative length, which
  \<open>substr\<close> reads as 0: the key is the empty string; \<open>variable.substr(splitIndex+1)\<close> is
  then \<open>variable.substr(0)\<close>, the whole segment.

  The result is a plain object; assigning a string to its \<open>__proto__\<close> key invokes the
  prototype setter, which ignores a value that is not an object, and creates no entry.
\<close>

definition decodePair :: "string \<Rightarrow> string \<times> string" where
  "decodePair variable =
     (case indexOf variable ''='' of
        None \<Rightarrow> ([], variable)
      | Some splitIndex \<Rightarrow> (take splitIndex variable, drop (splitIndex + 1) variable))"

definition assign :: "(string \<rightharpoonup> 'v) \<Rightarrow> string \<Rightarrow> 'v \<Rightarrow> (string \<rightharpoonup> 'v)" where
  "assign obj k v = (if k = ''__proto__'' then obj else obj(k \<mapsto> v))"

fun decodeLoop ::
  "(string \<Rightarrow> string option) \<Rightarrow> (string \<rightharpoonup> string) \<Rightarrow> string list \<Rightarrow> (string \<rightharpoonup> string) option"
where
  "decodeLoop dec decodedData [] = Some decodedData"
| "decodeLoop dec decodedData (variable # rest) =
     (case dec (fst (decodePair variable)) of
        None \<Rightarrow> None
      | Some k \<Rightarrow>
          (case dec (snd (decodePair variable)) of
             None \<Rightarrow> None
           | Some v \<Rightarrow> decodeLoop dec (assign decodedData k v) rest))"

definition decodeQueryString ::
  "(string \<Rightarrow> string option) \<Rightarrow> string \<Rightarrow> (string \<rightharpoonup> string) option"
where
  "decodeQueryString dec queryString = decodeLoop dec Map.empty (split queryString ''&'')"

section \<open>The regular expressions of the server\<close>

text \<open>
  Each pattern is written out as the matcher it denotes. With the \<open>i\<close> flag an ASCII
  letter of the pattern matches that letter in either case and nothing else; the other
  characters of the patterns match themselves.
\<close>

definition isUpper :: "char \<Rightarrow> bool" where
  "isUpper c = (c \<in> set ''ABCDEFGHIJKLMNOPQRSTUVWXYZ'')"

definition isDigit :: "char \<Rightarrow> bool" where
  "isDigit c = (c \<in> set ''0123456789'')"

definition toLower :: "char \<Rightarrow> char" where
  "toLower c =
     (case map_of (zip ''ABCDEFGHIJKLMNOPQRSTUVWXYZ'' ''abcdefghijklmnopqrstuvwxyz'') c of
        Some l \<Rightarrow> l
      | None \<Rightarrow> c)"

text \<open>\<open>s\<close> begins with \<open>p\<close>, letters compared without case.\<close>

definition ci_startsWith :: "string \<Rightarrow> string \<Rightarrow> bool" where
  "ci_startsWith s p = startsWith (map toLower s) (map toLower p)"

text \<open>
  \<open>exec\<close> of a pattern without \<open>^\<close>: the match at the least start index, the end of the
  input included.
\<close>

fun search :: "(string \<Rightarrow> 'a option) \<Rightarrow> string \<Rightarrow> 'a option" where
  "search m [] = m []"
| "search m (c # cs) = (case m (c # cs) of Some r \<Rightarrow> Some r | None \<Rightarrow> search m cs)"

text \<open>\<open>[\r\n]Name:\<close> at the start of \<open>s\<close>; the result is what follows the colon.\<close>

definition headerField :: "string \<Rightarrow> string \<Rightarrow> string option" where
  "headerField name s =
     (case s of
        [] \<Rightarrow> None
      | c # cs \<Rightarrow>
          if (c = CR \<or> c = LF) \<and> ci_startsWith cs name then Some (drop (length name) cs)
          else None)"

definition isToken :: "char \<Rightarrow> bool" where
  "isToken c = (c \<noteq> SP \<and> c \<noteq> CR \<and> c \<noteq> LF)"

text \<open>\<open> *([^ \r\n]+)\<close>: the spaces are skipped, the capture is the longest token.\<close>

definition spacesToken :: "string \<Rightarrow> string option" where
  "spacesToken r =
     (let tok = takeWhile isToken (dropWhile (\<lambda>c. c = SP) r)
      in if tok = [] then None else Some tok)"

text \<open>\<open>/^([A-Z]+) ([^ \r\n?]+)(\?[^ \r\n]+)?/\<close>: the groups 1, 2 and 3.\<close>

definition methodRe :: "string \<Rightarrow> (string \<times> string \<times> string option) option" where
  "methodRe h =
     (let m1 = takeWhile isUpper h; r1 = dropWhile isUpper h
      in if m1 = [] \<or> \<not> startsWith r1 [SP] then None
         else
           let isPath = (\<lambda>c. isToken c \<and> c \<noteq> CHR ''?'');
               m2 = takeWhile isPath (tl r1); r2 = dropWhile isPath (tl r1)
           in if m2 = [] then None
              else if startsWith r2 ''?'' \<and> takeWhile isToken (tl r2) \<noteq> []
                   then Some (m1, m2, Some (CHR ''?'' # takeWhile isToken (tl r2)))
                   else Some (m1, m2, None))"

text \<open>\<open>/[\r\n]Host: *(localhost|127\.0\.0\.1)(:[0-9]+)?[\r\n]/i\<close>, at one start index.\<close>

definition hostAt :: "string \<Rightarrow> unit option" where
  "hostAt s =
     (case headerField ''Host:'' s of
        None \<Rightarrow> None
      | Some r \<Rightarrow>
          let r1 = dropWhile (\<lambda>c. c = SP) r
          in if ci_startsWith r1 ''localhost'' \<or> startsWith r1 ''127.0.0.1''
             then
               let r2 = drop 9 r1;
                   r3 = (if startsWith r2 '':'' \<and> takeWhile isDigit (tl r2) \<noteq> []
                         then dropWhile isDigit (tl r2) else r2)
               in if startsWith r3 [CR] \<or> startsWith r3 [LF] then Some () else None
             else None)"

definition hostRe :: "string \<Rightarrow> bool" where
  "hostRe h = (search hostAt h \<noteq> None)"

text \<open>\<open>/[\r\n]Origin: *([^ \r\n]+)/i\<close>: group 1.\<close>

definition originRe :: "string \<Rightarrow> string option" where
  "originRe h = search (\<lambda>s. Option.bind (headerField ''Origin:'' s) spacesToken) h"

text \<open>\<open>/[\r\n]Zotero-Bookmarklet: *([^ \r\n]+)/i\<close>: group 1.\<close>

definition bookmarkletRe :: "string \<Rightarrow> string option" where
  "bookmarkletRe h = search (\<lambda>s. Option.bind (headerField ''Zotero-Bookmarklet:'' s) spacesToken) h"

text \<open>\<open>/[\r\n]Content-Type: *([^ \r\n]+)/i\<close>: group 1.\<close>

definition contentTypeRe :: "string \<Rightarrow> string option" where
  "contentTypeRe h = search (\<lambda>s. Option.bind (headerField ''Content-Type:'' s) spacesToken) h"

text \<open>
  \<open>contentType[1].split(/\s*;/)[0]\<close>: what precedes the first index from which optional
  white space and a semicolon follow; the whole string when there is none.
\<close>

fun splitContentType0 :: "string \<Rightarrow> string" where
  "splitContentType0 [] = []"
| "splitContentType0 (c # cs) =
     (if startsWith (dropWhile is_space (c # cs)) '';'' then [] else c # splitContentType0 cs)"

text \<open>\<open>/[\r\n]Content-Length: +([0-9]+)/i\<close>: group 1. At least one space is required.\<close>

definition contentLengthRe :: "string \<Rightarrow> string option" where
  "contentLengthRe h =
     search (\<lambda>s. case headerField ''Content-Length:'' s of
                    None \<Rightarrow> None
                  | Some r \<Rightarrow>
                      let ds = takeWhile isDigit (dropWhile (\<lambda>c. c = SP) r)
                      in if startsWith r [SP] \<and> ds \<noteq> [] then Some ds else None) h"

text \<open>
  \<open>/[\r\n]User-Agent: +([^\r\n]+)/i\<close>: group 1. The capture may itself hold spaces, so
  when nothing but the line's end follows the spaces, the pattern gives the last space
  back to the group.
\<close>

definition uaRe :: "string \<Rightarrow> string option" where
  "uaRe h =
     search (\<lambda>s. case headerField ''User-Agent:'' s of
                    None \<Rightarrow> None
                  | Some r \<Rightarrow>
                      let sp = takeWhile (\<lambda>c. c = SP) r;
                          v = takeWhile (\<lambda>c. c \<noteq> CR \<and> c \<noteq> LF) (dropWhile (\<lambda>c. c = SP) r)
                      in if sp = [] then None
                         else if v \<noteq> [] then Some v
                         else if length sp > 1 then Some [SP]
                         else None) h"

text \<open>\<open>/boundary=([^\s]*)/i\<close>: group 1, possibly empty.\<close>

definition boundaryRe :: "string \<Rightarrow> string option" where
  "boundaryRe h =
     search (\<lambda>s. if ci_startsWith s ''boundary=''
                  then Some (takeWhile (\<lambda>c. \<not> is_space c) (drop 9 s)) else None) h"

text \<open>
  \<open>/^Content-Disposition:\s*(.*)$/i\<close>: group 1. There is no \<open>m\<close> flag: \<open>^\<close> and \<open>$\<close> are
  the ends of the input, and \<open>.\<close> matches no line terminator, so the pattern matches only
  a header block that is one line.
\<close>

definition contentDispositionRe :: "string \<Rightarrow> string option" where
  "contentDispositionRe h =
     (if ci_startsWith h ''Content-Disposition:''
      then
        let v = dropWhile is_space (drop 20 h)
        in if CR \<in> set v \<or> LF \<in> set v then None else Some v
      else None)"

text \<open>
  \<open>parseInt\<close> on a string of decimal digits, as a natural number (the rounding of
  numbers beyond 2^53 is left out).
\<close>

definition digitVal :: "char \<Rightarrow> nat" where
  "digitVal c = (case map_of (zip ''0123456789'' [0, 1, 2, 3, 4, 5, 6, 7, 8, 9]) c of
                   Some d \<Rightarrow> d | None \<Rightarrow> 0)"

definition parseInt :: "string \<Rightarrow> nat" where
  "parseInt ds = foldl (\<lambda>n c. 10 * n + digitVal c) 0 ds"

section \<open>The multipart decoder\<close>

text \<open>
  A field descriptor: the two named properties and the properties the loop over the
  \<open>Content-Disposition\<close> parameters adds, whose keys are never \<open>header\<close> or \<open>body\<close>
  (see \<open>attrKey\<close>). A property set to \<open>null\<close> is \<open>Some None\<close>.
\<close>

record fieldData =
  fd_header :: string
  fd_body :: string
  fd_attrs :: "string \<rightharpoonup> string option"

text \<open>
  The split of one trimmed segment. \<open>-1\<close> is less than every index, so the first test,
  \<open>unixHeaderBoundary < windowsHeaderBoundary && unixHeaderBoundary != -1\<close>, needs both
  separators to be present.
\<close>

definition splitField :: "string \<Rightarrow> (string \<times> string) option" where
  "splitField field =
     (let unixHeaderBoundary = indexOf field [LF, LF];
          windowsHeaderBoundary = indexOf field [CR, LF, CR, LF]
      in case (unixHeaderBoundary, windowsHeaderBoundary) of
           (Some u, Some w) \<Rightarrow>
             if u < w then Some (take u field, drop (u + 2) field)
             else Some (take w field, drop (w + 4) field)
         | (None, Some w) \<Rightarrow> Some (take w field, drop (w + 4) field)
         | (Some u, None) \<Rightarrow> None
         | (None, None) \<Rightarrow> None)"

text \<open>
  The body of the loop over \<open>contentDisposition[1].split(';')\<close>. The value of
  \<open>nameVal.split('=')\<close> is dropped, so \<open>nameVal\<close> is still the string: \<open>nameVal[0]\<close> is its
  first code unit (\<open>undefined\<close> when it is empty, which as a property key is the string
  \<open>undefined\<close>) and \<open>nameVal[1]\<close> its second.
\<close>

definition attrKey :: "string \<Rightarrow> string" where
  "attrKey nameVal = (case nameVal of [] \<Rightarrow> ''undefined'' | c # _ \<Rightarrow> [c])"

definition attrVal :: "string \<Rightarrow> string option" where
  "attrVal nameVal = (if length nameVal > 1 then Some [nameVal ! 1] else None)"

definition setAttr :: "(string \<rightharpoonup> string option) \<Rightarrow> string \<Rightarrow> (string \<rightharpoonup> string option)" where
  "setAttr a nameVal = a(attrKey nameVal \<mapsto> attrVal nameVal)"

definition decodeField :: "string \<Rightarrow> fieldData option" where
  "decodeField field0 =
     (let field = trim field0
      in case splitField field of
           None \<Rightarrow> None
         | Some (h, b) \<Rightarrow>
             Some \<lparr>fd_header = h, fd_body = b,
                   fd_attrs = (case contentDispositionRe h of
                                 None \<Rightarrow> Map.empty
                               | Some cd \<Rightarrow> foldl setAttr Map.empty (split cd '';''))\<rparr>)"

fun decodeFields :: "string list \<Rightarrow> fieldData list option" where
  "decodeFields [] = Some []"
| "decodeFields (field # rest) =
     (case decodeField field of
        None \<Rightarrow> None
      | Some fieldData \<Rightarrow> map_option ((#) fieldData) (decodeFields rest))"

text \<open>
  \<open>_decodeMultipartData\<close>; \<open>None\<close> is the thrown
  \<open>Error('Malformed multipart/form-data body')\<close>. \<open>data.slice(1, data.length-1)\<close> drops
  the first and the last piece, and is empty when there are fewer than three.
\<close>

definition decodeMultipartData :: "string \<Rightarrow> string \<Rightarrow> fieldData list option" where
  "decodeMultipartData data boundary = decodeFields (butlast (tl (split data boundary)))"

section \<open>The response builder\<close>

text \<open>\<open>Zotero.Server.responseCodes\<close>.\<close>

definition responseCodes :: "(nat \<times> string) list" where
  "responseCodes =
     [(200, ''OK''), (201, ''Created''), (204, ''No Content''), (300, ''Multiple Choices''),
      (400, ''Bad Request''), (404, ''Not Found''), (409, ''Conflict''),
      (412, ''Precondition Failed''), (500, ''Internal Server Error''),
      (501, ''Not Implemented''), (504, ''Gateway Timeout'')]"

text \<open>The decimal numeral a number is converted to when concatenated to a string.\<close>

fun string_of_nat :: "nat \<Rightarrow> string" where
  "string_of_nat n =
     (if n < 10 then [''0123456789'' ! n]
      else string_of_nat (n div 10) @ [''0123456789'' ! (n mod 10)])"

declare string_of_nat.simps [simp del]

text \<open>
  \<open>responseCodes[status]\<close> is \<open>undefined\<close> for a status outside the table, and
  concatenation turns that into the text \<open>undefined\<close>.
\<close>

definition reasonPhrase :: "nat \<Rightarrow> string" where
  "reasonPhrase status = (case map_of responseCodes status of Some r \<Rightarrow> r | None \<Rightarrow> ''undefined'')"

text \<open>
  What the builder reads from outside the server: the mode, the version constants and
  the two bookmarklet origins of \<open>ZOTERO_CONFIG\<close>. They are defined elsewhere in the
  program and are parameters here.
\<close>

record env =
  isServer :: bool
  version :: string
  CONNECTOR_API_VERSION :: string
  BOOKMARKLET_ORIGIN :: string
  HTTP_BOOKMARKLET_ORIGIN :: string

text \<open>An optional string argument is truthy when it is given and not empty.\<close>

definition truthy :: "string option \<Rightarrow> bool" where
  "truthy x = (case x of None \<Rightarrow> False | Some v \<Rightarrow> v \<noteq> [])"

text \<open>\<open>_generateResponse\<close>, with \<open>this.origin\<close> as the argument \<open>origin\<close>.\<close>

definition generateResponse ::
  "env \<Rightarrow> string option \<Rightarrow> nat \<Rightarrow> string option \<Rightarrow> string option \<Rightarrow> string"
where
  "generateResponse e origin status contentType body =
     ''HTTP/1.0 '' @ string_of_nat status @ '' '' @ reasonPhrase status @ [CR, LF]
     @ (if \<not> isServer e
        then ''X-Zotero-Version: '' @ version e @ [CR, LF]
             @ ''X-Zotero-Connector-API-Version: '' @ CONNECTOR_API_VERSION e @ [CR, LF]
             @ (if origin = Some (BOOKMARKLET_ORIGIN e) \<or> origin = Some (HTTP_BOOKMARKLET_ORIGIN e)
                then ''Access-Control-Allow-Origin: '' @ the origin @ [CR, LF]
                     @ ''Access-Control-Allow-Methods: POST, GET, OPTIONS'' @ [CR, LF]
                     @ ''Access-Control-Allow-Headers: Content-Type,X-Zotero-Connector-API-Version,X-Zotero-Version''
                     @ [CR, LF]
                else [])
        else [])
     @ (if truthy contentType then ''Content-Type: '' @ the contentType @ [CR, LF] else [])
     @ (if truthy body then [CR, LF] @ the body else ''Content-Length: 0'' @ [CR, LF, CR, LF])"

section \<open>Endpoints\<close>

text \<open>
  The decoded body handed to an endpoint: \<open>null\<close>, the value of \<open>JSON.parse\<close>, the object
  of \<open>decodeQueryString\<close>, the field descriptors of the multipart decoder, or the text.
\<close>

datatype 'j data =
    DNull
  | DJson 'j
  | DForm "string \<rightharpoonup> string"
  | DMultipart "fieldData list"
  | DRaw string

text \<open>The object a single-parameter endpoint receives.\<close>

record 'j request =
  rq_method :: string
  rq_pathname :: "string option"
  rq_query :: "string \<rightharpoonup> string"
  rq_headers :: "string \<rightharpoonup> string"
  rq_data :: "'j data"

text \<open>The \<open>url\<close> object a three-parameter endpoint receives.\<close>

record urlInfo =
  url_pathname :: "string option"
  url_query :: "string \<rightharpoonup> string"
  url_userAgent :: "string option"

text \<open>One call \<open>sendResponseCallback(code, contentType, arg)\<close>.\<close>

datatype cb_call = Call nat "string option" "string option"

text \<open>
  What a single-parameter \<open>init\<close> does: it throws (or its promise rejects, or its value
  cannot be spread), its promise never settles, or it yields a status alone or a triple.
\<close>

datatype init_result = Throws | Pending | Returns nat "string option" "string option"

text \<open>
  What an \<open>init\<close> with a callback does: the calls of the callback it makes before it
  returns, whether it then throws, and the calls it makes later from asynchronous work.
\<close>

record cb_trace =
  sync_calls :: "cb_call list"
  throws :: bool
  async_calls :: "cb_call list"

text \<open>The three calling conventions, chosen by \<open>endpoint.init.length\<close>.\<close>

datatype 'j handler =
    Init1 "'j request \<Rightarrow> init_result"
  | Init2 "'j data \<Rightarrow> cb_trace"
  | Init3 "urlInfo \<Rightarrow> 'j data \<Rightarrow> cb_trace"

text \<open>
  \<open>supportedDataTypes\<close>: absent, the string \<open>*\<close>, or an array of types. The test
  \<open>supportedDataTypes != '*'\<close> converts an array to a string first, so the array
  \<open>['*']\<close> passes for the wildcard too.
\<close>

datatype dataTypes = Unrestricted | Wildcard | Types "string list"

definition excludesType :: "dataTypes \<Rightarrow> string \<Rightarrow> bool" where
  "excludesType sdt ct =
     (case sdt of
        Unrestricted \<Rightarrow> False
      | Wildcard \<Rightarrow> False
      | Types ts \<Rightarrow> ts \<noteq> [''*''] \<and> ct \<notin> set ts)"

text \<open>The errors thrown inside \<open>_processEndpoint\<close>.\<close>

datatype js_error = TypeError | URIError | EndpointError

text \<open>
  What a lookup in \<open>Zotero.Server.Endpoints\<close> yields, seen through what
  \<open>_processEndpoint\<close> does with it: the error that \<open>new this.endpoint\<close> throws, if it
  throws, and the properties the instance has. \<open>init\<close> is \<open>None\<close> when the instance has
  no \<open>init\<close>; reading \<open>endpoint.init.length\<close> then throws a \<open>TypeError\<close>.
\<close>

record 'j endpoint =
  newThrows :: "js_error option"
  supportedMethods :: "string list option"
  permitBookmarklet :: bool
  supportedDataTypes :: dataTypes
  init :: "'j handler option"

text \<open>
  \<open>Zotero.Server.Endpoints\<close> is a plain object (\<open>{}\<close>), so \<open>Endpoints[p]\<close> finds, besides
  the endpoints that were registered, what the object inherits from \<open>Object.prototype\<close>.
  Under \<open>constructor\<close> that is \<open>Object\<close>, and \<open>new Object\<close> is an object without
  properties. The other inherited values are methods, and under \<open>__proto__\<close> the
  prototype itself; none of them is a constructor, and \<open>new\<close> throws a \<open>TypeError\<close>.
\<close>

definition inheritedNames :: "string list" where
  "inheritedNames =
     [''constructor'', ''hasOwnProperty'', ''isPrototypeOf'', ''propertyIsEnumerable'',
      ''toLocaleString'', ''toString'', ''valueOf'', ''__defineGetter__'',
      ''__defineSetter__'', ''__lookupGetter__'', ''__lookupSetter__'', ''__proto__'']"

definition plainObject :: "'j endpoint" where
  "plainObject =
     \<lparr>newThrows = None, supportedMethods = None, permitBookmarklet = False,
      supportedDataTypes = Unrestricted, init = None\<rparr>"

definition notConstructor :: "'j endpoint" where
  "notConstructor =
     \<lparr>newThrows = Some TypeError, supportedMethods = None, permitBookmarklet = False,
      supportedDataTypes = Unrestricted, init = None\<rparr>"

definition lookupEndpoint :: "(string \<rightharpoonup> 'j endpoint) \<Rightarrow> string \<Rightarrow> 'j endpoint option" where
  "lookupEndpoint reg p =
     (case reg p of
        Some ep \<Rightarrow> Some ep
      | None \<Rightarrow>
          if p = ''constructor'' then Some plainObject
          else if p \<in> set inheritedNames then Some notConstructor
          else None)"

section \<open>The connection handler\<close>

datatype log_entry = Msg string | Err js_error

text \<open>
  The fields of \<open>Zotero.Server.DataListener\<close>, the state of the two streams, the debug
  log, and a trace of what happened: the arguments of each \<open>_processEndpoint\<close>, the
  decoded data passed to each \<open>init\<close>, and the errors thrown out of \<open>_processEndpoint\<close>.
\<close>

record 'j listener =
  header :: string
  headerFinished :: bool
  body :: string
  bodyLength :: nat
  origin :: "string option"
  contentType :: "string option"
  pathname :: "string option"
  endpoint :: "'j endpoint option"
  query :: "string option"
  responseSent :: bool
  iStreamClosed :: bool
  written :: "string list"
  debugLog :: "log_entry list"
  dispatched :: "(string \<times> string option) list"
  handled :: "'j data list"
  propagated :: "js_error list"

text \<open>The constructor.\<close>

definition DataListener :: "'j listener" where
  "DataListener =
     \<lparr>header = [], headerFinished = False, body = [], bodyLength = 0, origin = None,
      contentType = None, pathname = None, endpoint = None, query = None,
      responseSent = False, iStreamClosed = False, written = [], debugLog = [],
      dispatched = [], handled = [], propagated = []\<rparr>"

text \<open>
  The surroundings of a connection: the constants of the response builder, the built-ins
  \<open>decodeURIComponent\<close> and \<open>JSON.parse\<close> (\<open>None\<close> when they throw), the UTF-8 converter
  stream applied to the body, and the registry: the endpoints that have been registered
  as properties of \<open>Zotero.Server.Endpoints\<close>, by path.
\<close>

record 'j config =
  cfg_env :: env
  decodeURIComponent :: "string \<Rightarrow> string option"
  JSON_parse :: "string \<Rightarrow> 'j option"
  utf8_convert :: "string \<Rightarrow> string"
  registry :: "string \<rightharpoonup> 'j endpoint"

text \<open>\<open>Zotero.Server.Endpoints[p]\<close>, when it is truthy.\<close>

definition Endpoints :: "'j config \<Rightarrow> string \<Rightarrow> 'j endpoint option" where
  "Endpoints cfg p = lookupEndpoint (registry cfg) p"

text \<open>\<open>_requestFinished\<close>.\<close>

definition requestFinished :: "string \<Rightarrow> 'j listener \<Rightarrow> 'j listener" where
  "requestFinished response s =
     (if responseSent s
      then s\<lparr>debugLog := debugLog s @ [Msg ''Request already finished; not sending another response'']\<rparr>
      else s\<lparr>responseSent := True, iStreamClosed := True,
             debugLog := debugLog s @ [Msg response],
             written := written s @ [response]\<rparr>)"

text \<open>\<open>this._requestFinished(this._generateResponse(status, contentType, body))\<close>.\<close>

definition respond ::
  "'j config \<Rightarrow> nat \<Rightarrow> string option \<Rightarrow> string option \<Rightarrow> 'j listener \<Rightarrow> 'j listener"
where
  "respond cfg status ct b s =
     requestFinished (generateResponse (cfg_env cfg) (origin s) status ct b) s"

definition sendResponseCallback :: "'j config \<Rightarrow> 'j listener \<Rightarrow> cb_call \<Rightarrow> 'j listener" where
  "sendResponseCallback cfg s c = (case c of Call code ct arg \<Rightarrow> respond cfg code ct arg s)"

text \<open>The loop of \<open>_processEndpoint\<close> that builds the \<open>headers\<close> object.\<close>

definition headerLine :: "(string \<rightharpoonup> string) \<Rightarrow> string \<Rightarrow> (string \<rightharpoonup> string)" where
  "headerLine headers line0 =
     (let line = trim line0
      in case indexOf line '':'' of
           None \<Rightarrow> headers
         | Some pos \<Rightarrow> assign headers (take pos line) (trim (drop (pos + 1) line)))"

definition parseHeaders :: "string \<Rightarrow> (string \<rightharpoonup> string)" where
  "parseHeaders h = foldl headerLine Map.empty (split (trim h) [CR, LF])"

text \<open>\<open>this.query ? Zotero.Server.decodeQueryString(this.query.substr(1)) : {}\<close>.\<close>

definition queryObject :: "'j config \<Rightarrow> string option \<Rightarrow> (string \<rightharpoonup> string) option" where
  "queryObject cfg q =
     (if truthy q then decodeQueryString (decodeURIComponent cfg) (drop 1 (the q))
      else Some Map.empty)"

text \<open>
  The outcome of decoding the body: a response that ends the dispatch, a thrown error,
  or the decoded data.
\<close>

datatype 'j decoded = Reject string | Thrown js_error | Decoded "'j data"

definition decodeBody ::
  "'j config \<Rightarrow> 'j endpoint \<Rightarrow> string option \<Rightarrow> 'j listener \<Rightarrow> 'j decoded"
where
  "decodeBody cfg ep postData s =
     (if truthy postData \<and> truthy (contentType s)
      then
        let pd = the postData; ct = the (contentType s)
        in if excludesType (supportedDataTypes ep) ct
           then Reject (''Endpoint does not support content-type'' @ [LF])
           else if ct = ''application/json''
           then (case JSON_parse cfg pd of
                   None \<Rightarrow> Reject (''Invalid JSON provided'' @ [LF])
                 | Some j \<Rightarrow> Decoded (DJson j))
           else if ct = ''application/x-www-form-urlencoded''
           then (case decodeQueryString (decodeURIComponent cfg) pd of
                   None \<Rightarrow> Thrown URIError
                 | Some m \<Rightarrow> Decoded (DForm m))
           else if ct = ''multipart/form-data''
           then (case boundaryRe (header s) of
                   None \<Rightarrow> Reject (''Invalid multipart/form-data provided'' @ [LF])
                 | Some b \<Rightarrow>
                     (case decodeMultipartData pd (''--'' @ b) of
                        None \<Rightarrow> Reject (''Invalid multipart/form-data provided'' @ [LF])
                      | Some fs \<Rightarrow> Decoded (DMultipart fs)))
           else Decoded (DRaw pd)
      else Decoded DNull)"

text \<open>
  The call of \<open>init\<close>. The result is the error thrown, if any, the state, and the calls of
  the callback still to come.
\<close>

definition invoke ::
  "'j config \<Rightarrow> 'j endpoint \<Rightarrow> string \<Rightarrow> 'j data \<Rightarrow> 'j listener
     \<Rightarrow> js_error option \<times> 'j listener \<times> cb_call list"
where
  "invoke cfg ep method decodedData s =
     (case init ep of
        None \<Rightarrow> (Some TypeError, s, [])
      | Some (Init1 f) \<Rightarrow>
          (case queryObject cfg (query s) of
             None \<Rightarrow> (Some URIError, s, [])
           | Some q \<Rightarrow>
               let s1 = s\<lparr>handled := handled s @ [decodedData]\<rparr>
               in (case f \<lparr>rq_method = method, rq_pathname = pathname s, rq_query = q,
                           rq_headers = parseHeaders (header s), rq_data = decodedData\<rparr> of
                     Throws \<Rightarrow> (Some EndpointError, s1, [])
                   | Pending \<Rightarrow> (None, s1, [])
                   | Returns code ct b \<Rightarrow>
                       (None, sendResponseCallback cfg s1 (Call code ct b), [])))
      | Some (Init2 f) \<Rightarrow>
          let s1 = s\<lparr>handled := handled s @ [decodedData]\<rparr>; t = f decodedData
          in (if throws t then Some EndpointError else None,
              foldl (sendResponseCallback cfg) s1 (sync_calls t), async_calls t)
      | Some (Init3 f) \<Rightarrow>
          (case queryObject cfg (query s) of
             None \<Rightarrow> (Some URIError, s, [])
           | Some q \<Rightarrow>
               let s1 = s\<lparr>handled := handled s @ [decodedData]\<rparr>;
                   t = f \<lparr>url_pathname = pathname s, url_query = q,
                          url_userAgent = uaRe (header s)\<rparr> decodedData
               in (if throws t then Some EndpointError else None,
                   foldl (sendResponseCallback cfg) s1 (sync_calls t), async_calls t)))"

text \<open>The \<open>try\<close> block of \<open>_processEndpoint\<close>.\<close>

definition tryDispatch ::
  "'j config \<Rightarrow> string \<Rightarrow> string option \<Rightarrow> 'j listener
     \<Rightarrow> js_error option \<times> 'j listener \<times> cb_call list"
where
  "tryDispatch cfg method postData s =
     (case endpoint s of
        None \<Rightarrow> (Some TypeError, s, [])
      | Some ep \<Rightarrow>
          if newThrows ep \<noteq> None then (newThrows ep, s, [])
          else if (case supportedMethods ep of None \<Rightarrow> False | Some ms \<Rightarrow> method \<notin> set ms)
          then (None, respond cfg 400 (Some ''text/plain'')
                        (Some (''Endpoint does not support method'' @ [LF])) s, [])
          else if truthy (origin s)
                  \<and> (origin s = Some ''https://www.zotero.org'' \<or> origin s = Some ''http://www.zotero.org'')
                  \<and> \<not> permitBookmarklet ep
          then (None, respond cfg 403 (Some ''text/plain'')
                        (Some (''Access forbidden to bookmarklet'' @ [LF])) s, [])
          else (case decodeBody cfg ep postData s of
                  Reject msg \<Rightarrow> (None, respond cfg 400 (Some ''text/plain'') (Some msg) s, [])
                | Thrown e \<Rightarrow> (Some e, s, [])
                | Decoded d \<Rightarrow> invoke cfg ep method d s))"

text \<open>
  \<open>_processEndpoint\<close>. In the \<open>catch\<close> clause the closing parenthesis of
  \<open>_generateResponse\<close> follows \<open>500\<close>: the builder gets the status alone, and the content
  type and the text are further arguments of \<open>_requestFinished\<close>, which takes one.
\<close>

definition processEndpoint ::
  "'j config \<Rightarrow> string \<Rightarrow> string option \<Rightarrow> 'j listener \<Rightarrow> 'j listener"
where
  "processEndpoint cfg method postData s =
     (case tryDispatch cfg method postData (s\<lparr>dispatched := dispatched s @ [(method, postData)]\<rparr>) of
        (None, s1, later) \<Rightarrow> foldl (sendResponseCallback cfg) s1 later
      | (Some e, s1, later) \<Rightarrow>
          foldl (sendResponseCallback cfg)
            ((respond cfg 500 None None (s1\<lparr>debugLog := debugLog s1 @ [Err e]\<rparr>))
               \<lparr>propagated := propagated s1 @ [e]\<rparr>)
            later)"

text \<open>\<open>_bodyData\<close>: the converter stream reads the first \<open>bodyLength\<close> code units.\<close>

definition bodyData :: "'j config \<Rightarrow> 'j listener \<Rightarrow> 'j listener" where
  "bodyData cfg s =
     (if length (body s) \<ge> bodyLength s
      then
        let b = utf8_convert cfg (take (bodyLength s) (body s))
        in processEndpoint cfg ''POST'' (Some b) (s\<lparr>body := b\<rparr>)
      else s)"

text \<open>\<open>_headerFinished\<close>, from the request line on.\<close>

definition methodStage :: "'j config \<Rightarrow> 'j listener \<Rightarrow> 'j listener" where
  "methodStage cfg s0 =
     (let s = (case contentTypeRe (header s0) of
                 None \<Rightarrow> s0
               | Some ct \<Rightarrow> s0\<lparr>contentType := Some (splitContentType0 ct)\<rparr>)
      in case methodRe (header s) of
           None \<Rightarrow> respond cfg 400 (Some ''text/plain'') (Some (''Invalid method specified'' @ [LF])) s
         | Some (m1, m2, m3) \<Rightarrow>
             (case Endpoints cfg m2 of
                None \<Rightarrow> respond cfg 404 (Some ''text/plain'') (Some (''No endpoint found'' @ [LF])) s
              | Some ep \<Rightarrow>
                  let s2 = s\<lparr>pathname := Some m2, endpoint := Some ep, query := m3\<rparr>
                  in if m1 = ''HEAD'' \<or> m1 = ''OPTIONS'' then respond cfg 200 None None s2
                     else if m1 = ''GET'' then processEndpoint cfg ''GET'' None s2
                     else if m1 = ''POST''
                     then (case contentLengthRe (header s2) of
                             None \<Rightarrow> respond cfg 400 (Some ''text/plain'')
                                       (Some (''Content-length not provided'' @ [LF])) s2
                           | Some ds \<Rightarrow> bodyData cfg (s2\<lparr>bodyLength := parseInt ds\<rparr>))
                     else respond cfg 501 (Some ''text/plain'')
                            (Some (''Method not implemented'' @ [LF])) s2))"

text \<open>The part of \<open>_headerFinished\<close> that sets \<open>this.origin\<close>.\<close>

definition setOrigin :: "'j listener \<Rightarrow> 'j listener" where
  "setOrigin s =
     (case originRe (header s) of
        Some m \<Rightarrow> s\<lparr>origin := Some m\<rparr>
      | None \<Rightarrow>
          (case bookmarkletRe (header s) of
             Some m \<Rightarrow> s\<lparr>origin := Some ''https://www.zotero.org''\<rparr>
           | None \<Rightarrow> s))"

text \<open>\<open>_headerFinished\<close>.\<close>

definition do_headerFinished :: "'j config \<Rightarrow> 'j listener \<Rightarrow> 'j listener" where
  "do_headerFinished cfg s0 =
     (let s = s0\<lparr>headerFinished := True, debugLog := debugLog s0 @ [Msg (header s0)]\<rparr>
      in if \<not> isServer (cfg_env cfg)
         then
           let s1 = setOrigin s
           in if \<not> hostRe (header s1)
              then respond cfg 400 (Some ''text/plain'') (Some (''Invalid Host header'' @ [LF])) s1
              else methodStage cfg s1
         else methodStage cfg s)"

text \<open>\<open>onDataAvailable\<close>, \<open>readData\<close> being what \<open>this.sStream.read(count)\<close> returns.\<close>

definition onDataAvailable :: "'j config \<Rightarrow> 'j listener \<Rightarrow> string \<Rightarrow> 'j listener" where
  "onDataAvailable cfg s readData =
     (if headerFinished s then bodyData cfg (s\<lparr>body := body s @ readData\<rparr>)
      else
        case indexOf readData [CR, LF, CR, LF] of
          Some lineBreakIndex \<Rightarrow>
            do_headerFinished cfg
              (if lineBreakIndex \<noteq> 0
               then s\<lparr>header := header s @ take (lineBreakIndex + 4) readData,
                      body := drop (lineBreakIndex + 4) readData\<rparr>
               else s)
        | None \<Rightarrow>
            (case indexOf readData [LF, LF] of
               Some lineBreakIndex \<Rightarrow>
                 do_headerFinished cfg
                   (if lineBreakIndex \<noteq> 0
                    then s\<lparr>header := header s @ take (lineBreakIndex + 2) readData,
                           body := drop (lineBreakIndex + 2) readData\<rparr>
                    else s)
             | None \<Rightarrow>
                 if header s \<noteq> [] \<and> last (header s) = LF
                    \<and> (startsWith readData [LF] \<or> startsWith readData [CR])
                 then
                   (if length readData > 1 \<and> readData ! 1 = LF
                    then do_headerFinished cfg
                           (s\<lparr>header := header s @ take 2 readData, body := drop 2 readData\<rparr>)
                    else do_headerFinished cfg
                           (s\<lparr>header := header s @ take 1 readData, body := drop 1 readData\<rparr>))
                 else s\<lparr>header := header s @ readData\<rparr>))"

text \<open>A connection that has received the chunks \<open>cs\<close>, in this order.\<close>

definition deliver :: "'j config \<Rightarrow> string list \<Rightarrow> 'j listener" where
  "deliver cfg cs = foldl (onDataAvailable cfg) DataListener cs"

section \<open>The client side of a response\<close>

text \<open>
  The client of the round-trip property of the specification: it reads the status code
  after the protocol version, takes the header block up to the first blank line, and
  the body from there to the end of the stream.
\<close>

definition clientStatus :: "string \<Rightarrow> nat option" where
  "clientStatus r =
     (let t = takeWhile isDigit (drop 9 r)
      in if startsWith r ''HTTP/1.0 '' \<and> t \<noteq> [] then Some (parseInt t) else None)"

definition clientHead :: "string \<Rightarrow> string option" where
  "clientHead r = map_option (\<lambda>i. take i r) (indexOf r [CR, LF, CR, LF])"

definition clientBody :: "string \<Rightarrow> string option" where
  "clientBody r = map_option (\<lambda>i. drop (i + 4) r) (indexOf r [CR, LF, CR, LF])"

definition clientHeaderLines :: "string \<Rightarrow> string list" where
  "clientHeaderLines r = (case clientHead r of None \<Rightarrow> [] | Some h \<Rightarrow> split h [CR, LF])"

text \<open>A string that can stand in a header line: it holds no line break.\<close>

definition lineSafe :: "string \<Rightarrow> bool" where
  "lineSafe v = (CR \<notin> set v \<and> LF \<notin> set v)"

definition envSafe :: "env \<Rightarrow> bool" where
  "envSafe e =
     (lineSafe (version e) \<and> lineSafe (CONNECTOR_API_VERSION e)
      \<and> lineSafe (BOOKMARKLET_ORIGIN e) \<and> lineSafe (HTTP_BOOKMARKLET_ORIGIN e))"

text \<open>The header lines of a response, one by one, as the builder appends them.\<close>

definition responseLines :: "env \<Rightarrow> string option \<Rightarrow> nat \<Rightarrow> string option \<Rightarrow> string list" where
  "responseLines e orig status ctype =
     [''HTTP/1.0 '' @ string_of_nat status @ '' '' @ reasonPhrase status]
     @ (if \<not> isServer e
        then [''X-Zotero-Version: '' @ version e,
              ''X-Zotero-Connector-API-Version: '' @ CONNECTOR_API_VERSION e]
             @ (if orig = Some (BOOKMARKLET_ORIGIN e) \<or> orig = Some (HTTP_BOOKMARKLET_ORIGIN e)
                then [''Access-Control-Allow-Origin: '' @ the orig,
                      ''Access-Control-Allow-Methods: POST, GET, OPTIONS'',
                      ''Access-Control-Allow-Headers: Content-Type,X-Zotero-Connector-API-Version,X-Zotero-Version'']
                else [])
        else [])
     @ (if truthy ctype then [''Content-Type: '' @ the ctype] else [])"

section \<open>The response guard\<close>

text \<open>Nothing has been written, or one response has and the guard is set.\<close>

definition sentOnce :: "'j listener \<Rightarrow> bool" where
  "sentOnce s = ((written s = [] \<or> responseSent s) \<and> length (written s) \<le> 1)"

section \<open>A small installation\<close>

text \<open>
  A desktop installation with three endpoints: \<open>/echo\<close> answers with the text it was
  sent, \<open>/fail\<close> throws, \<open>/wait\<close> returns a promise that stays pending.
\<close>

definition env0 :: env where
  "env0 =
     \<lparr>isServer = False, version = ''5.0'', CONNECTOR_API_VERSION = ''2'',
      BOOKMARKLET_ORIGIN = ''https://www.zotero.org'',
      HTTP_BOOKMARKLET_ORIGIN = ''http://www.zotero.org''\<rparr>"

definition echoInit :: "unit data \<Rightarrow> cb_trace" where
  "echoInit d =
     \<lparr>sync_calls = [Call 200 (Some ''text/plain'') (case d of DRaw t \<Rightarrow> Some t | _ \<Rightarrow> None)],
      throws = False, async_calls = []\<rparr>"

definition echo :: "unit endpoint" where
  "echo =
     \<lparr>newThrows = None, supportedMethods = None, permitBookmarklet = False,
      supportedDataTypes = Unrestricted, init = Some (Init2 echoInit)\<rparr>"

definition failing :: "unit endpoint" where
  "failing =
     \<lparr>newThrows = None, supportedMethods = None, permitBookmarklet = False,
      supportedDataTypes = Unrestricted, init = Some (Init1 (\<lambda>r. Throws))\<rparr>"

definition waiting :: "unit endpoint" where
  "waiting =
     \<lparr>newThrows = None, supportedMethods = None, permitBookmarklet = False,
      supportedDataTypes = Unrestricted, init = Some (Init1 (\<lambda>r. Pending))\<rparr>"

definition cfg0 :: "unit config" where
  "cfg0 =
     \<lparr>cfg_env = env0, decodeURIComponent = Some, JSON_parse = (\<lambda>t. None),
      utf8_convert = (\<lambda>b. b),
      registry = map_of [(''/echo'', echo), (''/fail'', failing), (''/wait'', waiting)]\<rparr>"

text \<open>A request as one string, and the same bytes one at a time.\<close>

definition bytewise :: "string \<Rightarrow> string list" where
  "bytewise r = map (\<lambda>c. [c]) r"

definition postEcho :: string where
  "postEcho =
     ''POST /echo HTTP/1.0'' @ [CR, LF] @ ''Host: localhost'' @ [CR, LF]
     @ ''Content-Type: text/plain'' @ [CR, LF] @ ''Content-Length: 3'' @ [CR, LF, CR, LF]
     @ ''abc''"

definition hostLine :: string where
  "hostLine = '' HTTP/1.0'' @ [CR, LF] @ ''Host: localhost'' @ [CR, LF, CR, LF]"

definition noHost :: string where
  "noHost = ''GET /echo HTTP/1.0'' @ [CR, LF, CR, LF]"

text \<open>
  A request whose only \<open>Host\<close> header names another host, with bytes after its blank
  line, as it arrives in two chunks.
\<close>

definition evilHead :: string where
  "evilHead = ''GET /echo HTTP/1.0'' @ [CR, LF] @ ''Host: evil.com'' @ [CR, LF]"

definition evilTail :: string where
  "evilTail = [CR, LF] @ ''x'' @ [CR, LF] @ ''Host: localhost'' @ [CR, LF, CR, LF]"

text \<open>Requests for a path that is not registered: an inherited name, and another.\<close>

definition getConstructor :: string where
  "getConstructor = ''GET constructor'' @ hostLine"

definition getNone :: string where
  "getNone = ''GET /none'' @ hostLine"

definition bookmarkletGet :: string where
  "bookmarkletGet =
     ''GET /echo HTTP/1.0'' @ [CR, LF] @ ''Host: localhost'' @ [CR, LF]
     @ ''Zotero-Bookmarklet: 1'' @ [CR, LF, CR, LF]"

definition getFail :: string where
  "getFail = ''GET /fail HTTP/1.0'' @ [CR, LF] @ ''Host: localhost'' @ [CR, LF, CR, LF]"

text \<open>Two multipart bodies with the boundary \<open>XYZ\<close>: one field with Unix line ends, two
  fields with Windows line ends.\<close>

definition unixBody :: string where
  "unixBody =
     ''--XYZ'' @ [LF] @ ''Content-Disposition: form-data; name=\"a\"'' @ [LF, LF] @ ''1'' @ [LF]
     @ ''--XYZ--''"

definition twoFields :: string where
  "twoFields =
     ''--XYZ'' @ [CR, LF] @ ''Content-Disposition: form-data; name=\"a\"'' @ [CR, LF, CR, LF]
     @ ''1'' @ [CR, LF]
     @ ''--XYZ'' @ [CR, LF] @ ''Content-Disposition: form-data; name=\"b\"'' @ [CR, LF, CR, LF]
     @ ''2'' @ [CR, LF]
     @ ''--XYZ--'' @ [CR, LF]"

section \<open>Notions used in the statements\<close>

text \<open>The header block of a request: its bytes up to the first blank line.\<close>

definition requestHead :: "string \<Rightarrow> string" where
  "requestHead r =
     (case indexOf r [CR, LF, CR, LF] of None \<Rightarrow> r | Some i \<Rightarrow> take (i + 4) r)"

text \<open>Header lines, each followed by its line end.\<close>

definition joinLines :: "string list \<Rightarrow> string" where
  "joinLines ls = concat (map (\<lambda>l. l @ [CR, LF]) ls)"

text \<open>What the builder appends after the header lines of \<open>responseLines\<close>.\<close>

definition tailLines :: "string option \<Rightarrow> string list" where
  "tailLines b = (if truthy b then [] else [''Content-Length: 0''])"

definition bodyText :: "string option \<Rightarrow> string" where
  "bodyText b = (if truthy b then the b else [])"

text \<open>
  From \<open>s\<close> to \<open>s'\<close> the connection has written one plain-text response, of the given
  status and text, and has dispatched nothing.
\<close>

definition answers :: "'j config \<Rightarrow> 'j listener \<Rightarrow> 'j listener \<Rightarrow> nat \<Rightarrow> string \<Rightarrow> bool" where
  "answers cfg s s' status text =
     (written s' = written s @ [generateResponse (cfg_env cfg) (origin s') status
                                  (Some ''text/plain'') (Some (text @ [LF]))]
      \<and> dispatched s' = dispatched s \<and> handled s' = handled s)"


section \<open>Query strings: segments without an equals sign\<close>

lemma indexOf_absent: "c \<notin> set s \<Longrightarrow> indexOf s [c] = None"
  by (induction s) auto

lemma decodePair_no_equals:
  "CHR ''='' \<notin> set variable \<Longrightarrow> decodePair variable = ([], variable)"
  by (simp add: decodePair_def indexOf_absent)

lemma split_acc_single: "c \<notin> set v \<Longrightarrow> split_acc [c] a v = [rev a @ v]"
  by (induction v arbitrary: a) auto

lemma split_acc_last:
  "c \<notin> set v \<Longrightarrow> split_acc [c] acc (q @ c # v) = split_acc [c] acc q @ [v]"
proof (induction "[c]" acc q rule: split_acc.induct)
  case (1 acc)
  then show ?case by (simp add: split_acc_single)
next
  case (3 acc x xs)
  then show ?case by auto
qed

lemma split_last: "c \<notin> set v \<Longrightarrow> split (q @ c # v) [c] = split q [c] @ [v]"
  by (simp add: split_def split_acc_last)

lemma split_one: "c \<notin> set v \<Longrightarrow> split v [c] = [v]"
  by (simp add: split_def split_acc_single)

lemma decodeLoop_append:
  "decodeLoop dec m xs = Some m' \<Longrightarrow> decodeLoop dec m (xs @ ys) = decodeLoop dec m' ys"
  by (induction xs arbitrary: m) (auto split: option.splits)

lemma decodeLoop_no_equals:
  assumes "CHR ''='' \<notin> set v" "dec [] = Some []" "dec v = Some v'"
  shows "decodeLoop dec m (v # rest) = decodeLoop dec (m([] \<mapsto> v')) rest"
  using assms by (simp add: decodePair_no_equals assign_def)

text \<open>
  C10. A segment \<open>v\<close> of the query string without an equals sign is stored under the
  empty key, with the whole decoded segment as the value: this is what the loop does
  with it wherever it stands, so a query string that is one such segment decodes to the
  object with that single entry, and when such a segment comes last it replaces
  whatever an earlier segment had stored under the empty key. (\<open>decodeURIComponent\<close>
  maps the empty string to itself.)
\<close>

theorem decodeQueryString_segment_without_equals:
  assumes "CHR ''='' \<notin> set v" and "dec [] = Some []" and "dec v = Some v'"
  shows "decodeLoop dec m (v # rest) = decodeLoop dec (m([] \<mapsto> v')) rest
       \<and> (CHR ''&'' \<notin> set v \<longrightarrow> decodeQueryString dec v = Some [[] \<mapsto> v'])
       \<and> (CHR ''&'' \<notin> set v \<longrightarrow> decodeQueryString dec q = Some m0 \<longrightarrow>
            decodeQueryString dec (q @ ''&'' @ v) = Some (m0([] \<mapsto> v')))"
proof (intro conjI impI)
  show "decodeLoop dec m (v # rest) = decodeLoop dec (m([] \<mapsto> v')) rest"
    using assms by (rule decodeLoop_no_equals)
next
  assume "CHR ''&'' \<notin> set v"
  then show "decodeQueryString dec v = Some [[] \<mapsto> v']"
    using decodeLoop_no_equals [OF assms, of Map.empty "[]"]
    by (simp add: decodeQueryString_def split_one)
next
  assume a: "CHR ''&'' \<notin> set v" and q: "decodeQueryString dec q = Some m0"
  have "decodeQueryString dec (q @ ''&'' @ v) = decodeLoop dec m0 [v]"
    using a q by (simp add: decodeQueryString_def split_last decodeLoop_append)
  then show "decodeQueryString dec (q @ ''&'' @ v) = Some (m0([] \<mapsto> v'))"
    using decodeLoop_no_equals [OF assms, of m0 "[]"] by simp
qed

theorem decodeQueryString_segment_without_equals_witness:
  "CHR ''='' \<notin> set ''b'' \<and> CHR ''&'' \<notin> set ''b''
   \<and> decodeQueryString Some ''a'' = Some [[] \<mapsto> ''a'']
   \<and> decodeQueryString Some ''a&b'' = Some [[] \<mapsto> ''b'']"
proof -
  have e: "CHR ''='' \<notin> set ''b''" and a: "CHR ''&'' \<notin> set ''b''" by simp_all
  have e': "CHR ''='' \<notin> set ''a''" and a': "CHR ''&'' \<notin> set ''a''" by simp_all
  have d0: "Some ([]::string) = Some []" and d1: "Some ''b'' = Some ''b''"
    and d2: "Some ''a'' = Some ''a''" by simp_all
  note t1 = decodeQueryString_segment_without_equals
              [OF e' d0 d2, of Map.empty "[]" "[]" Map.empty]
  from t1 a' have q: "decodeQueryString Some ''a'' = Some [[] \<mapsto> ''a'']" by blast
  note t2 = decodeQueryString_segment_without_equals
              [OF e d0 d1, of Map.empty "[]" "''a''" "[[] \<mapsto> ''a'']"]
  from t2 a q
  have "decodeQueryString Some (''a'' @ ''&'' @ ''b'') = Some ([[] \<mapsto> ''a''](([]) \<mapsto> ''b''))"
    by blast
  then have "decodeQueryString Some ''a&b'' = Some [[] \<mapsto> ''b'']" by simp
  with e a q show ?thesis by blast
qed

section \<open>The response builder and its client\<close>

lemma digit_cases: "d < 10 \<Longrightarrow> d \<in> {0, 1, 2, 3, 4, 5, 6, 7, 8, Suc 8}"
  by auto

lemma digit_char:
  assumes "d < 10"
  shows "isDigit (''0123456789'' ! d) \<and> digitVal (''0123456789'' ! d) = d"
  using digit_cases [OF assms] by (auto simp: isDigit_def digitVal_def)

lemma string_of_nat_digits: "list_all isDigit (string_of_nat n) \<and> string_of_nat n \<noteq> []"
proof (induction n rule: string_of_nat.induct)
  case (1 n)
  show ?case
  proof (cases "n < 10")
    case True
    then show ?thesis using digit_char [of n] by (subst (1 2) string_of_nat.simps) simp
  next
    case False
    then show ?thesis using 1 digit_char [of "n mod 10"]
      by (subst (1 2) string_of_nat.simps) simp
  qed
qed

lemma parseInt_snoc: "parseInt (ds @ [c]) = 10 * parseInt ds + digitVal c"
  by (simp add: parseInt_def)

lemma parseInt_string_of_nat: "parseInt (string_of_nat n) = n"
proof (induction n rule: string_of_nat.induct)
  case (1 n)
  show ?case
  proof (cases "n < 10")
    case True
    then show ?thesis using digit_char [of n]
      by (subst string_of_nat.simps) (simp add: parseInt_def)
  next
    case False
    then show ?thesis using 1 digit_char [of "n mod 10"]
      by (subst string_of_nat.simps) (simp add: parseInt_snoc)
  qed
qed

lemma takeWhile_digits:
  "list_all isDigit ds \<Longrightarrow> \<not> isDigit c \<Longrightarrow> takeWhile isDigit (ds @ c # rest) = ds"
  by (induction ds) simp_all

lemma clientStatus_line:
  "clientStatus (''HTTP/1.0 '' @ string_of_nat n @ '' '' @ rest) = Some n"
proof -
  have "takeWhile isDigit (string_of_nat n @ SP # rest) = string_of_nat n"
    using string_of_nat_digits [of n] by (simp add: takeWhile_digits isDigit_def)
  then show ?thesis
    using string_of_nat_digits [of n] by (simp add: clientStatus_def parseInt_string_of_nat)
qed

lemma indexOf_line:
  "CR \<notin> set l \<Longrightarrow>
   indexOf (l @ CR # LF # rest) [CR, LF, CR, LF] =
     (if startsWith rest [CR, LF] then Some (length l)
      else map_option (\<lambda>i. i + length l + 2) (indexOf rest [CR, LF, CR, LF]))"
  by (induction l) (auto simp: option.map_comp comp_def)

lemma startsWith_line:
  "CR \<notin> set l \<Longrightarrow> l \<noteq> [] \<Longrightarrow> \<not> startsWith (l @ rest) (CR # p)"
  by (cases l) auto

lemma indexOf_joinLines:
  assumes "\<forall>l \<in> set ls. CR \<notin> set l \<and> l \<noteq> []" and "ls \<noteq> []"
  shows "indexOf (joinLines ls @ CR # LF # b) [CR, LF, CR, LF] = Some (length (joinLines ls) - 2)"
  using assms
proof (induction ls)
  case Nil
  then show ?case by simp
next
  case (Cons l ls)
  show ?case
  proof (cases ls)
    case Nil
    with Cons.prems show ?thesis by (simp add: joinLines_def indexOf_line)
  next
    case (Cons l2 more)
    with Cons.prems have l2: "CR \<notin> set l2" "l2 \<noteq> []" by auto
    have j: "joinLines (l # ls) @ CR # LF # b = l @ CR # LF # (joinLines ls @ CR # LF # b)"
      by (simp add: joinLines_def)
    have n: "\<not> startsWith (joinLines ls @ CR # LF # b) [CR, LF]"
      using startsWith_line [OF l2] by (simp add: joinLines_def Cons)
    have ih: "indexOf (joinLines ls @ CR # LF # b) [CR, LF, CR, LF] = Some (length (joinLines ls) - 2)"
      using Cons.IH Cons.prems Cons by simp
    have len: "length (joinLines ls) \<ge> 2" by (simp add: joinLines_def Cons)
    show ?thesis
      using Cons.prems len by (simp add: j indexOf_line n ih) (simp add: joinLines_def)
  qed
qed

lemma split_acc_line:
  "CR \<notin> set l \<Longrightarrow>
   split_acc [CR, LF] acc (l @ CR # LF # rest) = (rev acc @ l) # split_acc [CR, LF] [] rest"
  by (induction l arbitrary: acc) auto

lemma split_acc_final: "CR \<notin> set l \<Longrightarrow> split_acc [CR, LF] acc l = [rev acc @ l]"
  by (induction l arbitrary: acc) auto

lemma split_joined:
  assumes "\<forall>l \<in> set ls. CR \<notin> set l" and "CR \<notin> set l"
  shows "split_acc [CR, LF] [] (joinLines ls @ l) = ls @ [l]"
  using assms by (induction ls) (simp_all add: joinLines_def split_acc_final split_acc_line)

lemma joinLines_snoc: "joinLines (ls @ [l]) = joinLines ls @ l @ [CR, LF]"
  by (simp add: joinLines_def)

lemma client_reads_lines:
  assumes safe: "\<forall>l \<in> set ls. CR \<notin> set l \<and> l \<noteq> []" and ne: "ls \<noteq> []"
  shows "clientBody (joinLines ls @ CR # LF # b) = Some b"
    and "clientHeaderLines (joinLines ls @ CR # LF # b) = ls"
proof -
  let ?r = "joinLines ls @ CR # LF # b"
  have i: "indexOf ?r [CR, LF, CR, LF] = Some (length (joinLines ls) - 2)"
    using indexOf_joinLines [OF safe ne] .
  obtain ini l where ls: "ls = ini @ [l]" using ne by (metis rev_exhaust)
  have j: "joinLines ls = joinLines ini @ l @ [CR, LF]" by (simp add: ls joinLines_snoc)
  show "clientBody ?r = Some b"
    by (simp add: clientBody_def i) (simp add: j)
  have "take (length (joinLines ls) - 2) ?r = joinLines ini @ l"
    by (simp add: j)
  moreover have "split (joinLines ini @ l) [CR, LF] = ls"
    using safe split_joined [of ini l] by (simp add: ls split_def)
  ultimately show "clientHeaderLines ?r = ls"
    by (simp add: clientHeaderLines_def clientHead_def i)
qed


lemma generateResponse_lines:
  "generateResponse e orig st ct b
     = joinLines (responseLines e orig st ct @ tailLines b) @ CR # LF # bodyText b"
  by (simp add: generateResponse_def responseLines_def joinLines_def tailLines_def bodyText_def)

lemma reasonPhrase_safe: "CR \<notin> set (reasonPhrase st) \<and> LF \<notin> set (reasonPhrase st)"
  by (simp add: reasonPhrase_def responseCodes_def)

lemma digits_safe: "list_all isDigit ds \<Longrightarrow> CR \<notin> set ds \<and> LF \<notin> set ds"
  by (induction ds) (auto simp: isDigit_def)

lemma responseLines_safe:
  assumes "envSafe e" and "truthy ct \<longrightarrow> lineSafe (the ct)"
  shows "\<forall>l \<in> set (responseLines e orig st ct @ tailLines b). CR \<notin> set l \<and> l \<noteq> []"
  using assms reasonPhrase_safe [of st] digits_safe [of "string_of_nat st"]
    string_of_nat_digits [of st]
  by (auto simp: responseLines_def tailLines_def envSafe_def lineSafe_def)

lemma responseLines_no_length:
  "''Content-Length: 0'' \<notin> set (responseLines e orig st ct)"
  by (auto simp: responseLines_def)

lemma client_reads_response:
  assumes "envSafe e" and "truthy ct \<longrightarrow> lineSafe (the ct)"
  shows "clientStatus (generateResponse e orig st ct b) = Some st
       \<and> clientBody (generateResponse e orig st ct b) = Some (if truthy b then the b else [])
       \<and> (''Content-Length: 0'' \<in> set (clientHeaderLines (generateResponse e orig st ct b)))
           = (\<not> truthy b)
       \<and> (truthy b \<longrightarrow>
            (\<exists>h. generateResponse e orig st ct b = h @ [CR, LF] @ [CR, LF] @ the b
                  \<and> clientHead (generateResponse e orig st ct b) = Some h))"
proof -
  let ?r = "generateResponse e orig st ct b"
  let ?ls = "responseLines e orig st ct @ tailLines b"
  have safe: "\<forall>l \<in> set ?ls. CR \<notin> set l \<and> l \<noteq> []"
    using assms by (rule responseLines_safe)
  have ne: "?ls \<noteq> []" by (simp add: responseLines_def)
  have r: "?r = joinLines ?ls @ CR # LF # bodyText b" by (rule generateResponse_lines)
  have st: "clientStatus ?r = Some st"
    using clientStatus_line [of st] by (simp add: generateResponse_def)
  have bd: "clientBody ?r = Some (bodyText b)"
    unfolding r using safe ne by (rule client_reads_lines)
  have hl: "clientHeaderLines ?r = ?ls"
    unfolding r using safe ne by (rule client_reads_lines)
  have cl: "(''Content-Length: 0'' \<in> set (clientHeaderLines ?r)) = (\<not> truthy b)"
    using responseLines_no_length [of e orig st ct] by (simp add: hl tailLines_def)
  have "\<exists>h. ?r = h @ [CR, LF] @ [CR, LF] @ the b \<and> clientHead ?r = Some h" if "truthy b"
  proof -
    obtain ini l where ls: "?ls = ini @ [l]" using ne by (metis rev_exhaust)
    have j: "joinLines ?ls = joinLines ini @ l @ [CR, LF]"
      by (simp only: ls joinLines_snoc)
    have i: "indexOf ?r [CR, LF, CR, LF] = Some (length (joinLines ?ls) - 2)"
      unfolding r using safe ne by (rule indexOf_joinLines)
    have "?r = (joinLines ini @ l) @ [CR, LF] @ [CR, LF] @ the b"
      using that by (simp add: r j bodyText_def)
    moreover have "clientHead ?r = Some (joinLines ini @ l)"
      by (simp add: clientHead_def i) (simp add: r j)
    ultimately show ?thesis by blast
  qed
  with st bd cl show ?thesis by (simp add: bodyText_def)
qed

text \<open>
  C8, as amended. For an installation whose version strings and bookmarklet origins hold
  no line break, and for every status, every content type without a line break and
  every body: the client reads back the status and the body (the empty text when no
  body or an empty one was given), a body that is given follows the blank line that
  ends the header block, and the header \<open>Content-Length: 0\<close> is there exactly when the
  body is absent or empty.
\<close>

theorem response_round_trip:
  assumes "envSafe e" and "truthy ct \<longrightarrow> lineSafe (the ct)"
  shows "clientStatus (generateResponse e orig st ct b) = Some st
       \<and> clientBody (generateResponse e orig st ct b) = Some (if truthy b then the b else [])
       \<and> (''Content-Length: 0'' \<in> set (clientHeaderLines (generateResponse e orig st ct b)))
           = (\<not> truthy b)
       \<and> (truthy b \<longrightarrow>
            (\<exists>h. generateResponse e orig st ct b = h @ [CR, LF] @ [CR, LF] @ the b
                  \<and> clientHead (generateResponse e orig st ct b) = Some h))"
  using assms by (rule client_reads_response)

theorem response_round_trip_witness:
  "envSafe env0 \<and> lineSafe ''text/plain''
   \<and> clientStatus (generateResponse env0 None 200 (Some ''text/plain'') (Some ''hi'')) = Some 200
   \<and> clientBody (generateResponse env0 None 200 (Some ''text/plain'') (Some ''hi'')) = Some ''hi''
   \<and> ''Content-Length: 0'' \<notin> set (clientHeaderLines (generateResponse env0 None 200 (Some ''text/plain'') (Some ''hi'')))
   \<and> ''Content-Length: 0'' \<in> set (clientHeaderLines (generateResponse env0 None 204 None None))"
proof -
  have a: "envSafe env0" by (simp add: envSafe_def env0_def lineSafe_def)
  have l: "lineSafe ''text/plain''" by (simp add: lineSafe_def)
  have b: "truthy (Some ''text/plain'') \<longrightarrow> lineSafe (the (Some ''text/plain''))"
    using l by simp
  have c: "truthy None \<longrightarrow> lineSafe (the None)" by (simp add: truthy_def)
  have t: "truthy (Some ''hi'')" "\<not> truthy None" by (simp_all add: truthy_def)
  from response_round_trip [OF a b, of None 200 "Some ''hi''"] t(1)
  have 1: "clientStatus (generateResponse env0 None 200 (Some ''text/plain'') (Some ''hi'')) = Some 200"
    and 2: "clientBody (generateResponse env0 None 200 (Some ''text/plain'') (Some ''hi'')) = Some ''hi''"
    and 3: "''Content-Length: 0'' \<notin> set (clientHeaderLines (generateResponse env0 None 200 (Some ''text/plain'') (Some ''hi'')))"
    by simp_all
  from response_round_trip [OF a c, of None 204 None] t(2)
  have 4: "''Content-Length: 0'' \<in> set (clientHeaderLines (generateResponse env0 None 204 None None))"
    by simp
  from a l 1 2 3 4 show ?thesis by blast
qed

text \<open>
  Without these conditions the property fails: with a content type that holds a blank
  line, the client takes the rest of the content type for the start of the body; and a
  body that is given but empty gets the header \<open>Content-Length: 0\<close>.
\<close>

theorem response_round_trip_counterexample:
  "clientBody (generateResponse env0 None 200 (Some (''text/plain'' @ [CR, LF, CR, LF] @ ''x''))
                 (Some ''hello''))
     \<noteq> Some ''hello''
   \<and> clientBody (generateResponse env0 None 200 (Some (''text/plain'' @ [CR, LF, CR, LF] @ ''x''))
                 (Some ''hello''))
     = Some (''x'' @ [CR, LF, CR, LF] @ ''hello'')
   \<and> ''Content-Length: 0''
       \<in> set (clientHeaderLines (generateResponse env0 None 200 (Some ''text/plain'') (Some [])))"
  by code_simp

section \<open>What the operations leave unchanged\<close>

lemma requestFinished_frame [simp]:
  "header (requestFinished r s) = header s"
  "headerFinished (requestFinished r s) = headerFinished s"
  "origin (requestFinished r s) = origin s"
  "dispatched (requestFinished r s) = dispatched s"
  "handled (requestFinished r s) = handled s"
  "propagated (requestFinished r s) = propagated s"
  "endpoint (requestFinished r s) = endpoint s"
  by (simp_all add: requestFinished_def)

lemma requestFinished_sent [simp]: "responseSent (requestFinished r s)"
  by (simp add: requestFinished_def)

lemma requestFinished_closed [simp]:
  "iStreamClosed (requestFinished r s) = (\<not> responseSent s \<or> iStreamClosed s)"
  by (simp add: requestFinished_def)

lemma requestFinished_written:
  "written (requestFinished r s) = (if responseSent s then written s else written s @ [r])"
  by (simp add: requestFinished_def)

lemma respond_frame [simp]:
  "header (respond cfg c ct b s) = header s"
  "headerFinished (respond cfg c ct b s) = headerFinished s"
  "origin (respond cfg c ct b s) = origin s"
  "dispatched (respond cfg c ct b s) = dispatched s"
  "handled (respond cfg c ct b s) = handled s"
  "propagated (respond cfg c ct b s) = propagated s"
  "endpoint (respond cfg c ct b s) = endpoint s"
  "responseSent (respond cfg c ct b s)"
  by (simp_all add: respond_def)

lemma respond_closed [simp]:
  "iStreamClosed (respond cfg c ct b s) = (\<not> responseSent s \<or> iStreamClosed s)"
  by (simp add: respond_def)

lemma respond_written:
  "written (respond cfg c ct b s) =
     (if responseSent s then written s
      else written s @ [generateResponse (cfg_env cfg) (origin s) c ct b])"
  by (simp add: respond_def requestFinished_written)

lemma callback_frame [simp]:
  "header (sendResponseCallback cfg s c) = header s"
  "headerFinished (sendResponseCallback cfg s c) = headerFinished s"
  "origin (sendResponseCallback cfg s c) = origin s"
  "dispatched (sendResponseCallback cfg s c) = dispatched s"
  "handled (sendResponseCallback cfg s c) = handled s"
  "propagated (sendResponseCallback cfg s c) = propagated s"
  "responseSent (sendResponseCallback cfg s c)"
  by (simp_all add: sendResponseCallback_def split: cb_call.splits)

lemma callbacks_frame [simp]:
  "header (foldl (sendResponseCallback cfg) s cs) = header s"
  "headerFinished (foldl (sendResponseCallback cfg) s cs) = headerFinished s"
  "origin (foldl (sendResponseCallback cfg) s cs) = origin s"
  "dispatched (foldl (sendResponseCallback cfg) s cs) = dispatched s"
  "handled (foldl (sendResponseCallback cfg) s cs) = handled s"
  "propagated (foldl (sendResponseCallback cfg) s cs) = propagated s"
  by (induction cs arbitrary: s) simp_all

lemma callbacks_sent: "responseSent s \<Longrightarrow> responseSent (foldl (sendResponseCallback cfg) s cs)"
  by (induction cs arbitrary: s) simp_all

lemma sentOnce_requestFinished: "sentOnce s \<Longrightarrow> sentOnce (requestFinished r s)"
  by (auto simp: sentOnce_def requestFinished_def)

lemma sentOnce_respond: "sentOnce s \<Longrightarrow> sentOnce (respond cfg c ct b s)"
  by (simp add: respond_def sentOnce_requestFinished)

lemma sentOnce_callback: "sentOnce s \<Longrightarrow> sentOnce (sendResponseCallback cfg s c)"
  by (simp add: sendResponseCallback_def sentOnce_respond split: cb_call.splits)

lemma sentOnce_callbacks: "sentOnce s \<Longrightarrow> sentOnce (foldl (sendResponseCallback cfg) s cs)"
  by (induction cs arbitrary: s) (simp_all add: sentOnce_callback)

lemma sentOnce_fields [simp]:
  "sentOnce (s\<lparr>handled := x1\<rparr>) = sentOnce s"
  "sentOnce (s\<lparr>dispatched := x2\<rparr>) = sentOnce s"
  "sentOnce (s\<lparr>debugLog := x3\<rparr>) = sentOnce s"
  "sentOnce (s\<lparr>propagated := x4\<rparr>) = sentOnce s"
  "sentOnce (s\<lparr>body := x5\<rparr>) = sentOnce s"
  "sentOnce (s\<lparr>bodyLength := x6\<rparr>) = sentOnce s"
  "sentOnce (s\<lparr>header := x7\<rparr>) = sentOnce s"
  "sentOnce (s\<lparr>headerFinished := x8\<rparr>) = sentOnce s"
  "sentOnce (s\<lparr>origin := x9\<rparr>) = sentOnce s"
  "sentOnce (s\<lparr>contentType := x10\<rparr>) = sentOnce s"
  "sentOnce (s\<lparr>pathname := x11\<rparr>) = sentOnce s"
  "sentOnce (s\<lparr>endpoint := x12\<rparr>) = sentOnce s"
  "sentOnce (s\<lparr>query := x13\<rparr>) = sentOnce s"
  by (simp_all add: sentOnce_def)

lemma invoke_frame:
  assumes "invoke cfg ep m d s = (e, s1, later)"
  shows "header s1 = header s \<and> headerFinished s1 = headerFinished s \<and> origin s1 = origin s
       \<and> dispatched s1 = dispatched s \<and> (sentOnce s \<longrightarrow> sentOnce s1)"
  using assms
  by (auto simp: invoke_def Let_def sentOnce_callback sentOnce_callbacks
           split: handler.splits option.splits init_result.splits if_splits)

lemma tryDispatch_frame:
  assumes "tryDispatch cfg m pd s = (e, s1, later)"
  shows "header s1 = header s \<and> headerFinished s1 = headerFinished s \<and> origin s1 = origin s
       \<and> dispatched s1 = dispatched s \<and> (sentOnce s \<longrightarrow> sentOnce s1)"
proof (cases "endpoint s")
  case None
  with assms show ?thesis by (simp add: tryDispatch_def)
next
  case (Some ep)
  show ?thesis
  proof (cases "decodeBody cfg ep pd s")
    case (Decoded d)
    with assms Some invoke_frame [of cfg ep m d s e s1 later] show ?thesis
      by (auto simp: tryDispatch_def sentOnce_respond split: if_splits)
  qed (use assms Some in \<open>auto simp: tryDispatch_def sentOnce_respond split: if_splits\<close>)
qed

lemma processEndpoint_frame:
  "header (processEndpoint cfg m pd s) = header s"
  "headerFinished (processEndpoint cfg m pd s) = headerFinished s"
  "origin (processEndpoint cfg m pd s) = origin s"
  "dispatched (processEndpoint cfg m pd s) = dispatched s @ [(m, pd)]"
  "sentOnce s \<Longrightarrow> sentOnce (processEndpoint cfg m pd s)"
proof -
  obtain e s1 later where t: "tryDispatch cfg m pd (s\<lparr>dispatched := dispatched s @ [(m, pd)]\<rparr>) = (e, s1, later)"
    by (metis prod_cases3)
  note f = tryDispatch_frame [OF t]
  show "header (processEndpoint cfg m pd s) = header s"
    using f by (cases e) (simp_all add: processEndpoint_def t)
  show "headerFinished (processEndpoint cfg m pd s) = headerFinished s"
    using f by (cases e) (simp_all add: processEndpoint_def t)
  show "origin (processEndpoint cfg m pd s) = origin s"
    using f by (cases e) (simp_all add: processEndpoint_def t)
  show "dispatched (processEndpoint cfg m pd s) = dispatched s @ [(m, pd)]"
    using f by (cases e) (simp_all add: processEndpoint_def t)
  show "sentOnce s \<Longrightarrow> sentOnce (processEndpoint cfg m pd s)"
    using f by (cases e) (simp_all add: processEndpoint_def t sentOnce_callbacks sentOnce_respond)
qed


lemma bodyData_frame:
  "header (bodyData cfg s) = header s"
  "headerFinished (bodyData cfg s) = headerFinished s"
  "origin (bodyData cfg s) = origin s"
  "sentOnce s \<Longrightarrow> sentOnce (bodyData cfg s)"
  by (simp_all add: bodyData_def Let_def processEndpoint_frame)

lemma methodStage_frame:
  "header (methodStage cfg s) = header s"
  "headerFinished (methodStage cfg s) = headerFinished s"
  "origin (methodStage cfg s) = origin s"
  "sentOnce s \<Longrightarrow> sentOnce (methodStage cfg s)"
  by (simp_all add: methodStage_def Let_def processEndpoint_frame bodyData_frame sentOnce_respond
        split: option.splits prod.splits)

lemma setOrigin_frame [simp]:
  "header (setOrigin s) = header s"
  "headerFinished (setOrigin s) = headerFinished s"
  "responseSent (setOrigin s) = responseSent s"
  "written (setOrigin s) = written s"
  "dispatched (setOrigin s) = dispatched s"
  "handled (setOrigin s) = handled s"
  "iStreamClosed (setOrigin s) = iStreamClosed s"
  "endpoint (setOrigin s) = endpoint s"
  "sentOnce (setOrigin s) = sentOnce s"
  by (simp_all add: setOrigin_def split: option.splits)

lemma do_headerFinished_frame:
  "header (do_headerFinished cfg s) = header s"
  "headerFinished (do_headerFinished cfg s)"
  "sentOnce s \<Longrightarrow> sentOnce (do_headerFinished cfg s)"
  by (simp_all add: do_headerFinished_def Let_def methodStage_frame sentOnce_respond)

lemma sentOnce_onDataAvailable: "sentOnce s \<Longrightarrow> sentOnce (onDataAvailable cfg s c)"
  by (simp add: onDataAvailable_def bodyData_frame do_headerFinished_frame
        split: option.splits)

lemma sentOnce_foldl: "sentOnce s \<Longrightarrow> sentOnce (foldl (onDataAvailable cfg) s cs)"
  by (induction cs arbitrary: s) (simp_all add: sentOnce_onDataAvailable)

lemma sentOnce_deliver: "sentOnce (deliver cfg cs)"
proof -
  have "sentOnce (DataListener :: 'j listener)"
    by (simp add: sentOnce_def DataListener_def)
  then show ?thesis
    unfolding deliver_def by (rule sentOnce_foldl)
qed

lemma headerFinished_onDataAvailable:
  "headerFinished s \<Longrightarrow> headerFinished (onDataAvailable cfg s c)
     \<and> header (onDataAvailable cfg s c) = header s"
  by (simp add: onDataAvailable_def bodyData_frame)

section \<open>At most one response\<close>

text \<open>
  C5. Whatever chunks a connection receives and whatever its endpoint does, at most one
  response is written to the output stream. A second call of \<open>_requestFinished\<close> writes
  nothing: once a response has been sent, the call only adds the line
  \<open>Request already finished; not sending another response\<close> to the debug log.
\<close>

theorem at_most_one_response:
  "length (written (deliver cfg cs)) \<le> 1
   \<and> written (requestFinished r2 (requestFinished r1 s)) = written (requestFinished r1 s)
   \<and> (responseSent s \<longrightarrow>
        requestFinished r s =
          s\<lparr>debugLog := debugLog s @ [Msg ''Request already finished; not sending another response'']\<rparr>)
   \<and> (\<not> responseSent s \<longrightarrow> written (requestFinished r2 (requestFinished r1 s)) = written s @ [r1])"
proof (intro conjI impI)
  show "length (written (deliver cfg cs)) \<le> 1"
    using sentOnce_deliver [of cfg cs] by (simp add: sentOnce_def)
qed (simp_all add: requestFinished_def)

theorem at_most_one_response_witness:
  "responseSent (requestFinished ''first'' (DataListener :: unit listener))
   \<and> \<not> responseSent (DataListener :: unit listener)
   \<and> written (requestFinished ''second'' (requestFinished ''first'' (DataListener :: unit listener))) = [''first'']
   \<and> debugLog (requestFinished ''second'' (requestFinished ''first'' (DataListener :: unit listener)))
       = [Msg ''first'', Msg ''Request already finished; not sending another response'']
   \<and> length (written (deliver cfg0 [postEcho])) \<le> 1"
proof -
  let ?s = "DataListener :: unit listener"
  have a: "responseSent (requestFinished ''first'' ?s)" by (simp add: requestFinished_def)
  have b: "\<not> responseSent ?s" by (simp add: DataListener_def)
  note t = at_most_one_response [of cfg0 "[postEcho]" "''second''" "''first''" ?s]
  note u = at_most_one_response [of cfg0 "[postEcho]" "''second''" "''first''" "requestFinished ''first'' ?s" "''second''"]
  from t b
  have "written (requestFinished ''second'' (requestFinished ''first'' ?s)) = written ?s @ [''first'']"
    by blast
  moreover have "written ?s = []" by (simp add: DataListener_def)
  ultimately have w: "written (requestFinished ''second'' (requestFinished ''first'' ?s)) = [''first'']"
    by simp
  from u a have "requestFinished ''second'' (requestFinished ''first'' ?s)
      = (requestFinished ''first'' ?s)\<lparr>debugLog := debugLog (requestFinished ''first'' ?s)
           @ [Msg ''Request already finished; not sending another response'']\<rparr>"
    by blast
  then have l: "debugLog (requestFinished ''second'' (requestFinished ''first'' ?s))
       = [Msg ''first'', Msg ''Request already finished; not sending another response'']"
    by (simp add: requestFinished_def DataListener_def)
  from t have "length (written (deliver cfg0 [postEcho])) \<le> 1" by blast
  with a b w l show ?thesis by blast
qed

section \<open>The host check\<close>

text \<open>
  What the check does with the header buffer it is given: outside headless mode, on a
  connection that has not answered, a buffer the host pattern does not match is answered
  400 \<open>Invalid Host header\<close>, and \<open>_headerFinished\<close> returns without a call of
  \<open>_processEndpoint\<close>.
\<close>

lemma host_check_step:
  assumes "\<not> isServer (cfg_env cfg)" and "\<not> responseSent s" and "\<not> hostRe (header s)"
  shows "answers cfg s (do_headerFinished cfg s) 400 ''Invalid Host header''"
  using assms by (simp add: answers_def do_headerFinished_def Let_def respond_written)

section \<open>Method handling\<close>

lemma respond_answers:
  "\<not> responseSent s \<Longrightarrow>
   answers cfg s0 (respond cfg status (Some ''text/plain'') (Some (text @ [LF])) s) status text
     = (written s = written s0 \<and> dispatched s = dispatched s0 \<and> handled s = handled s0)"
  by (auto simp: answers_def respond_written)

lemma methodStage_cases:
  assumes fresh: "\<not> responseSent s"
  shows "(methodRe (header s) = None \<longrightarrow> answers cfg s (methodStage cfg s) 400 ''Invalid method specified'')
       \<and> (\<forall>m p q. methodRe (header s) = Some (m, p, q) \<longrightarrow>
            (Endpoints cfg p = None \<longrightarrow> answers cfg s (methodStage cfg s) 404 ''No endpoint found'')
          \<and> (Endpoints cfg p \<noteq> None \<and> (m = ''HEAD'' \<or> m = ''OPTIONS'') \<longrightarrow>
               written (methodStage cfg s)
                 = written s @ [generateResponse (cfg_env cfg) (origin (methodStage cfg s)) 200 None None]
               \<and> dispatched (methodStage cfg s) = dispatched s
               \<and> handled (methodStage cfg s) = handled s)
          \<and> (Endpoints cfg p \<noteq> None \<and> m = ''GET'' \<longrightarrow>
               dispatched (methodStage cfg s) = dispatched s @ [(''GET'', None)])
          \<and> (Endpoints cfg p \<noteq> None \<and> m = ''POST'' \<and> contentLengthRe (header s) = None \<longrightarrow>
               answers cfg s (methodStage cfg s) 400 ''Content-length not provided'')
          \<and> (Endpoints cfg p \<noteq> None \<and> m \<notin> {''HEAD'', ''OPTIONS'', ''GET'', ''POST''} \<longrightarrow>
               answers cfg s (methodStage cfg s) 501 ''Method not implemented''))"
  using fresh
  by (auto simp: methodStage_def Let_def answers_def respond_written processEndpoint_frame
           split: option.splits)

text \<open>
  What \<open>_headerFinished\<close> does from the request line on, in terms of the lookup
  \<open>Endpoints\<close>: on a connection that has not answered yet and whose header passed the
  host check (or in headless mode).
\<close>

lemma do_headerFinished_cases:
  assumes gate: "isServer (cfg_env cfg) \<or> hostRe (header s)" and fresh: "\<not> responseSent s"
  shows "(methodRe (header s) = None \<longrightarrow>
            answers cfg s (do_headerFinished cfg s) 400 ''Invalid method specified'')
       \<and> (\<forall>m p q. methodRe (header s) = Some (m, p, q) \<longrightarrow>
            (Endpoints cfg p = None \<longrightarrow> answers cfg s (do_headerFinished cfg s) 404 ''No endpoint found'')
          \<and> (Endpoints cfg p \<noteq> None \<and> (m = ''HEAD'' \<or> m = ''OPTIONS'') \<longrightarrow>
               written (do_headerFinished cfg s)
                 = written s @ [generateResponse (cfg_env cfg) (origin (do_headerFinished cfg s)) 200 None None]
               \<and> dispatched (do_headerFinished cfg s) = dispatched s
               \<and> handled (do_headerFinished cfg s) = handled s)
          \<and> (Endpoints cfg p \<noteq> None \<and> m = ''GET'' \<longrightarrow>
               dispatched (do_headerFinished cfg s) = dispatched s @ [(''GET'', None)])
          \<and> (Endpoints cfg p \<noteq> None \<and> m = ''POST'' \<and> contentLengthRe (header s) = None \<longrightarrow>
               answers cfg s (do_headerFinished cfg s) 400 ''Content-length not provided'')
          \<and> (Endpoints cfg p \<noteq> None \<and> m \<notin> {''HEAD'', ''OPTIONS'', ''GET'', ''POST''} \<longrightarrow>
               answers cfg s (do_headerFinished cfg s) 501 ''Method not implemented''))"
proof -
  define s1 where "s1 = (if isServer (cfg_env cfg)
       then s\<lparr>headerFinished := True, debugLog := debugLog s @ [Msg (header s)]\<rparr>
       else setOrigin (s\<lparr>headerFinished := True, debugLog := debugLog s @ [Msg (header s)]\<rparr>))"
  have s1: "header s1 = header s" "\<not> responseSent s1" "written s1 = written s"
    "dispatched s1 = dispatched s" "handled s1 = handled s"
    using fresh by (simp_all add: s1_def)
  have d: "do_headerFinished cfg s = methodStage cfg s1"
    using gate by (auto simp: do_headerFinished_def Let_def s1_def)
  have a: "answers cfg s s' c t = answers cfg s1 s' c t" for s' c t
    by (simp add: answers_def s1)
  show ?thesis
    using methodStage_cases [of s1 cfg] s1 by (simp add: d a)
qed

text \<open>A client reads the status and the text back from such an answer.\<close>

lemma answers_read:
  assumes "answers cfg s s' status text" and "envSafe (cfg_env cfg)"
  shows "\<exists>r. written s' = written s @ [r] \<and> clientStatus r = Some status
             \<and> clientBody r = Some (text @ [LF])"
  using assms
    client_reads_response [of "cfg_env cfg" "Some ''text/plain''" "origin s'" status
      "Some (text @ [LF])"]
  by (simp add: answers_def truthy_def lineSafe_def)

section \<open>Where the code departs from the specification\<close>

text \<open>
  C1. The request \<open>postEcho\<close>, delivered whole, reaches the endpoint with the body \<open>abc\<close>,
  which the endpoint echoes. Delivered one byte at a time, the third detection ends the
  header at the carriage return of the blank line; the line feed that follows becomes
  the first byte of the body, and the endpoint is first called with a line feed and
  \<open>ab\<close>, which is what the client gets back. Delivered in two chunks cut before that line
  feed, no detection fires and the header is never finished.
\<close>

theorem bytewise_delivery_diverges:
  "concat (bytewise postEcho) = postEcho
   \<and> dispatched (deliver cfg0 [postEcho]) = [(''POST'', Some ''abc'')]
   \<and> take 1 (dispatched (deliver cfg0 (bytewise postEcho))) = [(''POST'', Some (LF # ''ab''))]
   \<and> map clientBody (written (deliver cfg0 [postEcho])) = [Some ''abc'']
   \<and> map clientBody (written (deliver cfg0 (bytewise postEcho))) = [Some (LF # ''ab'')]
   \<and> take 84 postEcho @ drop 84 postEcho = postEcho
   \<and> \<not> headerFinished (deliver cfg0 [take 84 postEcho, drop 84 postEcho])"
  by code_simp

text \<open>
  C2. A segment is split only where the Windows separator occurs: the decoder fails
  exactly when some segment lacks it. The body \<open>unixBody\<close> has one segment, which holds
  the Unix separator (at index 40 once trimmed) and not the Windows one, and decoding it
  fails.
\<close>

theorem unix_separator_rejected:
  "(splitField field = None) = (indexOf field [CR, LF, CR, LF] = None)
   \<and> decodeMultipartData unixBody ''--XYZ'' = None
   \<and> map (\<lambda>f. indexOf (trim f) [LF, LF]) (butlast (tl (split unixBody ''--XYZ''))) = [Some 40]"
proof -
  have "(splitField field = None) = (indexOf field [CR, LF, CR, LF] = None)"
    by (simp add: splitField_def Let_def split: option.splits)
  moreover have "decodeMultipartData unixBody ''--XYZ'' = None" by code_simp
  moreover have "map (\<lambda>f. indexOf (trim f) [LF, LF]) (butlast (tl (split unixBody ''--XYZ'')))
                   = [Some 40]" by code_simp
  ultimately show ?thesis by (intro conjI)
qed

text \<open>
  C3. The body \<open>twoFields\<close> declares the fields \<open>a\<close> and \<open>b\<close>. The decoder returns two
  descriptors in this order, with the right header blocks and bodies, but neither has a
  \<open>name\<close> attribute: from each parameter the loop takes the first code unit as the key
  and the second as the value, so the descriptors map \<open>f\<close> to \<open>o\<close> (from \<open>form-data\<close>)
  and a space to \<open>n\<close> (from the parameter \<open>name\<close> with its leading space). A header block
  with a second line is not matched by the pattern at all.
\<close>

theorem content_disposition_not_parsed:
  "map_option (map (\<lambda>f. (fd_header f, fd_body f, fd_attrs f ''name'', fd_attrs f '' '',
                          fd_attrs f ''f'')))
     (decodeMultipartData twoFields ''--XYZ'')
   = Some [(''Content-Disposition: form-data; name=\"a\"'', ''1'', None,
            Some (Some ''n''), Some (Some ''o'')),
           (''Content-Disposition: form-data; name=\"b\"'', ''2'', None,
            Some (Some ''n''), Some (Some ''o''))]
   \<and> contentDispositionRe (''Content-Disposition: form-data; name=\"a\"'' @ [CR, LF]
                            @ ''Content-Type: text/plain'') = None"
  by code_simp

text \<open>
  C4. A \<open>GET\<close> of \<open>/fail\<close>, whose endpoint throws: the error is thrown on from
  \<open>_processEndpoint\<close>, and the response written before that is the builder's for status
  500 alone. It has no content type and, for a body, the header \<open>Content-Length: 0\<close>.
\<close>

theorem handler_error_response_empty:
  "written (deliver cfg0 [getFail]) =
     [''HTTP/1.0 500 Internal Server Error'' @ [CR, LF] @ ''X-Zotero-Version: 5.0'' @ [CR, LF]
      @ ''X-Zotero-Connector-API-Version: 2'' @ [CR, LF]
      @ ''Content-Length: 0'' @ [CR, LF, CR, LF]]
   \<and> map clientBody (written (deliver cfg0 [getFail])) = [Some []]
   \<and> propagated (deliver cfg0 [getFail]) = [EndpointError]"
  by code_simp

text \<open>
  C9. The table of reason phrases has no entry for 403. A \<open>GET\<close> of \<open>/echo\<close> with the
  bookmarklet marker, \<open>/echo\<close> not having opted in, is answered with the status line
  \<open>HTTP/1.0 403 undefined\<close>.
\<close>

theorem forbidden_reason_undefined:
  "map_of responseCodes 403 = None
   \<and> written (deliver cfg0 [bookmarkletGet]) =
       [''HTTP/1.0 403 undefined'' @ [CR, LF] @ ''X-Zotero-Version: 5.0'' @ [CR, LF]
        @ ''X-Zotero-Connector-API-Version: 2'' @ [CR, LF]
        @ ''Access-Control-Allow-Origin: https://www.zotero.org'' @ [CR, LF]
        @ ''Access-Control-Allow-Methods: POST, GET, OPTIONS'' @ [CR, LF]
        @ ''Access-Control-Allow-Headers: Content-Type,X-Zotero-Connector-API-Version,X-Zotero-Version''
        @ [CR, LF]
        @ ''Content-Type: text/plain'' @ [CR, LF, CR, LF]
        @ ''Access forbidden to bookmarklet'' @ [LF]]"
  by code_simp

text \<open>
  C6. The host check reads the header buffer, and what the buffer holds depends on how
  the request was cut into chunks. The header block of the request \<open>evilHead @ evilTail\<close>
  has one \<open>Host\<close> header, for \<open>evil.com\<close>; in one chunk the request is answered 400
  \<open>Invalid Host header\<close> and nothing is dispatched. In the two chunks \<open>evilHead\<close> and
  \<open>evilTail\<close> its blank line lies across the cut: the first detection finds the later
  blank line inside the second chunk, the bytes after the request's own blank line join
  the buffer, the host pattern matches the \<open>Host: localhost\<close> among them, and \<open>/echo\<close> is
  dispatched and answers 200. The request \<open>noHost\<close>, which has no \<open>Host\<close> header at all,
  is answered 400 in one chunk and never answered when cut before the last line feed of
  its blank line.
\<close>

theorem host_check_bypassed:
  "requestHead (evilHead @ evilTail) = evilHead @ [CR, LF]
   \<and> \<not> hostRe (requestHead (evilHead @ evilTail))
   \<and> map clientStatus (written (deliver cfg0 [evilHead @ evilTail])) = [Some 400]
   \<and> map clientBody (written (deliver cfg0 [evilHead @ evilTail]))
       = [Some (''Invalid Host header'' @ [LF])]
   \<and> dispatched (deliver cfg0 [evilHead @ evilTail]) = []
   \<and> map clientStatus (written (deliver cfg0 [evilHead, evilTail])) = [Some 200]
   \<and> dispatched (deliver cfg0 [evilHead, evilTail]) = [(''GET'', None)]
   \<and> length (handled (deliver cfg0 [evilHead, evilTail])) = 1
   \<and> requestHead noHost = noHost \<and> \<not> hostRe noHost
   \<and> map clientStatus (written (deliver cfg0 [noHost])) = [Some 400]
   \<and> take 21 noHost @ drop 21 noHost = noHost
   \<and> written (deliver cfg0 [take 21 noHost, drop 21 noHost]) = []
   \<and> \<not> headerFinished (deliver cfg0 [take 21 noHost, drop 21 noHost])"
  by code_simp

text \<open>
  C7. The path \<open>constructor\<close> is not registered, yet the lookup in the plain object finds
  \<open>Object\<close> under it: the request \<open>getConstructor\<close> is dispatched, \<open>new Object\<close> gives an
  object without \<open>init\<close>, reading \<open>endpoint.init.length\<close> throws, and the answer is the
  status 500 without a body, not 404. The request \<open>getNone\<close>, for a path that is neither
  registered nor inherited, is answered 404 \<open>No endpoint found\<close>.
\<close>

theorem inherited_path_dispatched:
  "registry cfg0 ''constructor'' = None
   \<and> methodRe getConstructor = Some (''GET'', ''constructor'', None)
   \<and> hostRe getConstructor
   \<and> written (deliver cfg0 [getConstructor]) =
       [''HTTP/1.0 500 Internal Server Error'' @ [CR, LF] @ ''X-Zotero-Version: 5.0'' @ [CR, LF]
        @ ''X-Zotero-Connector-API-Version: 2'' @ [CR, LF]
        @ ''Content-Length: 0'' @ [CR, LF, CR, LF]]
   \<and> map clientStatus (written (deliver cfg0 [getConstructor])) = [Some 500]
   \<and> dispatched (deliver cfg0 [getConstructor]) = [(''GET'', None)]
   \<and> propagated (deliver cfg0 [getConstructor]) = [TypeError]
   \<and> registry cfg0 ''/none'' = None
   \<and> map clientStatus (written (deliver cfg0 [getNone])) = [Some 404]
   \<and> map clientBody (written (deliver cfg0 [getNone])) = [Some (''No endpoint found'' @ [LF])]
   \<and> dispatched (deliver cfg0 [getNone]) = []"
proof -
  have r: "registry cfg0 ''constructor'' = None" and n: "registry cfg0 ''/none'' = None"
    by (simp_all add: cfg0_def)
  have m: "methodRe getConstructor = Some (''GET'', ''constructor'', None)"
    and h: "hostRe getConstructor"
    by code_simp+
  have c: "written (deliver cfg0 [getConstructor]) =
       [''HTTP/1.0 500 Internal Server Error'' @ [CR, LF] @ ''X-Zotero-Version: 5.0'' @ [CR, LF]
        @ ''X-Zotero-Connector-API-Version: 2'' @ [CR, LF]
        @ ''Content-Length: 0'' @ [CR, LF, CR, LF]]
     \<and> map clientStatus (written (deliver cfg0 [getConstructor])) = [Some 500]
     \<and> dispatched (deliver cfg0 [getConstructor]) = [(''GET'', None)]
     \<and> propagated (deliver cfg0 [getConstructor]) = [TypeError]"
    by code_simp
  have e: "map clientStatus (written (deliver cfg0 [getNone])) = [Some 404]
     \<and> map clientBody (written (deliver cfg0 [getNone])) = [Some (''No endpoint found'' @ [LF])]
     \<and> dispatched (deliver cfg0 [getNone]) = []"
    by code_simp
  show ?thesis
    by (intro conjI)
       (rule r n m h c [THEN conjunct1] c [THEN conjunct2, THEN conjunct1]
          c [THEN conjunct2, THEN conjunct2, THEN conjunct1]
          c [THEN conjunct2, THEN conjunct2, THEN conjunct2]
          e [THEN conjunct1] e [THEN conjunct2, THEN conjunct1]
          e [THEN conjunct2, THEN conjunct2])+
qed

end
